theory Spec2Isabelle
  imports Main
begin

section \<open>Recipient extraction (\<open>parseExcelFile\<close>, index.js lines 85--103)\<close>

text \<open>
  A JavaScript string is a \<^typ>\<open>string\<close>; each character stands for one code unit below 256.
  An exception is a value of type \<open>error\<close>, carrying its message.
\<close>

type_synonym error = string

text \<open>
  The value of a cell as \<open>xlsx.utils.sheet_to_json(sheet, {header: 1})\<close> delivers it.
  \<open>Undefined\<close> is what \<open>row[0]\<close> reads in a row with no first cell. \<open>Number n\<close> is the
  JavaScript number of integer value \<open>n\<close>, for the safe integers \<open>n\<close> (\<open>isSafeInteger\<close> below:
  magnitude at most \<open>2^53 - 1\<close>), where \<open>Number.prototype.toString\<close> is the decimal
  notation; fractions and larger magnitudes are floating-point values and stay outside
  this development.
\<close>

datatype cell = Undefined | Number int | String string | Boolean bool

text \<open>\<open>Number.isSafeInteger\<close>: the integers that \<open>Number n\<close> is meant for.\<close>

definition isSafeInteger :: "int \<Rightarrow> bool" where
  "isSafeInteger n \<longleftrightarrow> - (2 ^ 53) < n \<and> n < 2 ^ 53"

type_synonym row = "cell list"

text \<open>\<open>row[0]\<close>: reading past the end of an array gives \<open>undefined\<close>.\<close>

fun first_column :: "row \<Rightarrow> cell" where
  "first_column [] = Undefined"
| "first_column (c # _) = c"

definition digit_char :: "nat \<Rightarrow> char" where
  "digit_char d = ''0123456789'' ! d"

fun digits :: "nat \<Rightarrow> string" where
  "digits n = (if n < 10 then [digit_char n] else digits (n div 10) @ [digit_char (n mod 10)])"

declare digits.simps [simp del]

text \<open>\<open>num.toString()\<close> on an integer-valued number.\<close>

definition toString :: "int \<Rightarrow> string" where
  "toString i = (if i < 0 then CHR ''-'' # digits (nat (- i)) else digits (nat i))"

text \<open>
  The white space and line terminators that \<open>String.prototype.trim\<close> strips, among the code
  units below 256: TAB, LF, VT, FF, CR, SP and NBSP.
\<close>

definition white_space :: "char \<Rightarrow> bool" where
  "white_space c \<longleftrightarrow> c \<in> set [CHR 0x09, CHR 0x0A, CHR 0x0B, CHR 0x0C, CHR 0x0D, CHR 0x20, CHR 0xA0]"

definition trim :: "string \<Rightarrow> string" where
  "trim s = rev (dropWhile white_space (rev (dropWhile white_space s)))"

text \<open>\<open>/^[0-9]+$/.test(s)\<close>: one or more characters, each of them a decimal digit.\<close>

definition is_digit :: "char \<Rightarrow> bool" where
  "is_digit c \<longleftrightarrow> c \<in> set ''0123456789''"

definition numeric :: "string \<Rightarrow> bool" where
  "numeric s \<longleftrightarrow> s \<noteq> [] \<and> list_all is_digit s"

text \<open>
  Line 97: \<open>typeof num === "number" ? num.toString() : num\<close>. The other values pass
  through as they are.
\<close>

fun stringify :: "cell \<Rightarrow> cell" where
  "stringify (Number n) = String (toString n)"
| "stringify c = c"

text \<open>
  Line 98: \<open>.filter((num) => /^[0-9]+$/.test(num.trim()))\<close>. Only a string has a \<open>trim\<close>
  method: on a boolean the call \<open>num.trim()\<close> throws a \<open>TypeError\<close>, which ends the whole
  chain. (\<open>undefined\<close> was removed by line 96 and numbers were converted by line 97; both
  cases are written out as the same \<open>TypeError\<close> to keep the function total.)
\<close>

definition not_a_function :: error where
  "not_a_function = ''TypeError: num.trim is not a function''"

fun keep_numeric :: "cell list \<Rightarrow> error + string list" where
  "keep_numeric [] = Inr []"
| "keep_numeric (String s # cs) =
     (case keep_numeric cs of
        Inl e \<Rightarrow> Inl e
      | Inr ss \<Rightarrow> Inr (if numeric (trim s) then s # ss else ss))"
| "keep_numeric (_ # cs) = Inl not_a_function"

text \<open>
  Lines 93--99, the chain applied to \<open>data\<close>: \<open>slice(1)\<close>, first column, drop \<open>undefined\<close>,
  convert numbers, keep the numeric strings, trim.
\<close>

definition mobileNumbers :: "row list \<Rightarrow> error + string list" where
  "mobileNumbers data =
     (case keep_numeric (map stringify (filter (\<lambda>num. num \<noteq> Undefined) (map first_column (drop 1 data)))) of
        Inl e \<Rightarrow> Inl e
      | Inr ss \<Rightarrow> Inr (map trim ss))"

text \<open>
  What the uploaded bytes are to \<open>xlsx.read\<close> and \<open>sheet_to_json\<close> (lines 86--88, library
  code): they throw, or they give the rows of the first sheet.
\<close>

datatype buffer = Unreadable error | Workbook "row list"

section \<open>State and effects (index.js lines 17--19)\<close>

text \<open>
  A \<open>Client\<close> object of whatsapp-web.js: \<open>cid\<close> tells the objects apart, \<open>info\<close> says
  whether \<open>client.info\<close> is set, which the library does when the session is ready.
\<close>

record Client =
  cid :: nat
  info :: bool

text \<open>
  The three module variables. \<open>client\<close> is \<open>None\<close> for \<open>undefined\<close> and \<open>null\<close>;
  \<open>constructed\<close> counts the \<open>Client\<close> objects made so far and names the next one.
\<close>

record server =
  client :: "Client option"
  isClientInitializing :: bool
  qrCodeContent :: "string option"
  constructed :: nat

datatype console =
    Log string
  | LogError string error
  | LogRaw "row list"
  | LogExtracted "string list"
  | LogCount nat
  | LogSending string nat nat
  | LogSent string

datatype body = Message string | Error string

text \<open>
  What a handler does to the outside, in the order it does it: a console line,
  \<open>client.destroy()\<close>, \<open>new Client(...)\<close> with its four handlers registered,
  \<open>client.initialize()\<close> (the handshake begins), \<open>io.emit(event, payload)\<close>,
  \<open>client.sendMessage(address, message)\<close>, \<open>delay(ms)\<close>, \<open>res.status(code).json(body)\<close>.
\<close>

datatype effect =
    Console console
  | Destroy nat
  | NewClient nat
  | Initialize nat
  | Emit string "string option"
  | SendMessage nat string string
  | Delay nat
  | Respond nat body

text \<open>How an awaited promise settles.\<close>

datatype settled = Resolved | Rejected error

text \<open>
  An \<open>async\<close> function runs until its next \<open>await\<close>. \<open>initializeWhatsAppClient\<close> has two:
  \<open>await client.destroy()\<close> (line 39) and \<open>await client.initialize()\<close> (line 73).
\<close>

datatype awaited = ClientDestroy | ClientInitialize

datatype progress = Returned | Awaiting awaited

text \<open>JavaScript truthiness of a value that is a string, \<open>null\<close> or \<open>undefined\<close>.\<close>

definition truthy :: "string option \<Rightarrow> bool" where
  "truthy v = (case v of None \<Rightarrow> False | Some s \<Rightarrow> s \<noteq> [])"

section \<open>\<open>initializeWhatsAppClient\<close> (index.js lines 28--79)\<close>

text \<open>Lines 43--73, up to the \<open>await\<close> of line 73.\<close>

definition construct_and_initialize :: "server \<Rightarrow> effect list \<times> progress \<times> server" where
  "construct_and_initialize s =
     ([Console (Log ''Initializing new WhatsApp client...''),
       NewClient (constructed s),
       Initialize (constructed s)],
      Awaiting ClientInitialize,
      s\<lparr>client := Some \<lparr>cid = constructed s, info = False\<rparr>, constructed := constructed s + 1\<rparr>)"

text \<open>Lines 74--78, the \<open>catch\<close> block.\<close>

definition catch_initialize :: "error \<Rightarrow> server \<Rightarrow> effect list \<times> progress \<times> server" where
  "catch_initialize e s =
     ([Console (LogError ''Error initializing WhatsApp client:'' e)],
      Returned,
      s\<lparr>isClientInitializing := False, client := None\<rparr>)"

text \<open>Lines 29--39: the call, up to its first \<open>await\<close> or its return.\<close>

definition initializeWhatsAppClient :: "server \<Rightarrow> effect list \<times> progress \<times> server" where
  "initializeWhatsAppClient s =
     (if isClientInitializing s then
        ([Console (Log ''Client is already initializing...'')], Returned, s)
      else
        (let s1 = s\<lparr>isClientInitializing := True\<rparr> in
         case client s1 of
           Some c \<Rightarrow>
             ([Console (Log ''Destroying existing client...''), Destroy (cid c)],
              Awaiting ClientDestroy, s1)
         | None \<Rightarrow> construct_and_initialize s1))"

text \<open>
  The body resumed when the awaited promise settles: after line 39 it goes on with line 40,
  after line 73 it returns; a rejection enters the \<open>catch\<close> block.
\<close>

fun resume :: "awaited \<Rightarrow> settled \<Rightarrow> server \<Rightarrow> effect list \<times> progress \<times> server" where
  "resume ClientDestroy Resolved s = construct_and_initialize (s\<lparr>client := None\<rparr>)"
| "resume ClientInitialize Resolved s = ([], Returned, s)"
| "resume _ (Rejected e) s = catch_initialize e s"

section \<open>The handlers of the client's events (index.js lines 46--71)\<close>

definition on_qr :: "string \<Rightarrow> server \<Rightarrow> effect list \<times> server" where
  "on_qr qr s =
     ([Console (Log ''QR Code generated.''), Emit ''qr'' (Some qr)],
      s\<lparr>qrCodeContent := Some qr\<rparr>)"

definition on_ready :: "server \<Rightarrow> effect list \<times> server" where
  "on_ready s =
     ([Console (Log ''WhatsApp client is ready!''), Emit ''ready'' None],
      s\<lparr>qrCodeContent := None\<rparr>)"

definition on_auth_failure :: "string \<Rightarrow> server \<Rightarrow> effect list \<times> server" where
  "on_auth_failure msg s =
     ([Console (LogError ''Authentication failed:'' msg),
       Emit ''auth_failure'' (Some ''Authentication failed. Please re-scan the QR code.'')],
      s\<lparr>qrCodeContent := None\<rparr>)"

definition on_disconnected :: "server \<Rightarrow> effect list \<times> server" where
  "on_disconnected s =
     ([Console (Log ''WhatsApp client disconnected.'')],
      s\<lparr>qrCodeContent := None, client := None\<rparr>)"

section \<open>\<open>GET /link-device\<close> (index.js lines 155--169)\<close>

text \<open>
  Lines 166--168 run once the awaited call of \<open>initializeWhatsAppClient\<close> has returned.
\<close>

definition link_device_respond :: "progress \<Rightarrow> effect list" where
  "link_device_respond p =
     (case p of
        Returned \<Rightarrow> [Respond 200 (Message ''Device linking initiated. QR code will be generated.'')]
      | Awaiting _ \<Rightarrow> [])"

text \<open>Lines 156--165: the handler up to the point where it first waits, or to its end.\<close>

definition link_device :: "server \<Rightarrow> effect list \<times> progress \<times> server" where
  "link_device s =
     (if truthy (qrCodeContent s) then
        ([Emit ''qr'' (qrCodeContent s),
          Respond 200 (Message ''QR code already generated. Scan to link the device.'')],
         Returned, s)
      else
        (case initializeWhatsAppClient s of
           (es, p, s') \<Rightarrow>
             (Console (Log ''Initializing client for QR code generation...'') # es
                @ link_device_respond p, p, s')))"

text \<open>The handler resumed when the promise its callee awaits settles.\<close>

definition link_device_resume :: "awaited \<Rightarrow> settled \<Rightarrow> server \<Rightarrow> effect list \<times> progress \<times> server" where
  "link_device_resume a r s =
     (case resume a r s of (es, p, s') \<Rightarrow> (es @ link_device_respond p, p, s'))"

section \<open>The event loop\<close>

text \<open>
  One thread runs the handlers, one at a time, each until it returns or awaits. A
  configuration holds the module variables, the calls of \<open>initializeWhatsAppClient\<close> that
  are suspended at an \<open>await\<close> (each with its caller: line 177 at start-up, or the
  \<open>/link-device\<close> handler, which awaits the call at line 165), and the effects so far.
  The handler of \<open>POST /send-messages\<close> assigns none of the module variables and calls
  none of these functions; it is modelled on its own below.
\<close>

datatype caller = Startup | LinkDevice

record config =
  state :: server
  pending :: "(caller \<times> awaited) list"
  history :: "effect list"

text \<open>
  What the loop can run next: the call of line 177, a \<open>GET /link-device\<close> request, the
  settling of the promise that the \<open>i\<close>-th suspended call awaits, or one of the four
  events of a client (\<open>ready\<close> with the \<open>cid\<close> of the object that emits it).
\<close>

datatype event =
    Boot
  | GetLinkDevice
  | Settle nat settled
  | Qr string
  | Ready nat
  | AuthFailure string
  | Disconnected

definition suspend :: "caller \<Rightarrow> progress \<Rightarrow> (caller \<times> awaited) list" where
  "suspend c p = (case p of Returned \<Rightarrow> [] | Awaiting a \<Rightarrow> [(c, a)])"

text \<open>
  whatsapp-web.js sets \<open>info\<close> on a \<open>Client\<close> object before that object emits \<open>ready\<close>
  (library behaviour, taken as given). The handlers of a client that was replaced stay
  registered: the \<open>ready\<close> of the object \<open>emitter\<close> runs the handler of lines 52--56 in any
  case, but the object that the variable \<open>client\<close> holds has its \<open>info\<close> set only when it
  is \<open>emitter\<close> itself.
\<close>

definition library_ready :: "nat \<Rightarrow> server \<Rightarrow> server" where
  "library_ready emitter s =
     s\<lparr>client := map_option (\<lambda>c. if cid c = emitter then c\<lparr>info := True\<rparr> else c) (client s)\<rparr>"

definition handle :: "effect list \<times> server \<Rightarrow> config \<Rightarrow> config" where
  "handle r cfg = cfg\<lparr>state := snd r, history := history cfg @ fst r\<rparr>"

fun fire :: "event \<Rightarrow> config \<Rightarrow> config" where
  "fire Boot cfg =
     (case initializeWhatsAppClient (state cfg) of
        (es, p, s') \<Rightarrow>
          \<lparr>state = s', pending = pending cfg @ suspend Startup p, history = history cfg @ es\<rparr>)"
| "fire GetLinkDevice cfg =
     (case link_device (state cfg) of
        (es, p, s') \<Rightarrow>
          \<lparr>state = s', pending = pending cfg @ suspend LinkDevice p, history = history cfg @ es\<rparr>)"
| "fire (Settle i r) cfg =
     (if i < length (pending cfg) then
        (case pending cfg ! i of
           (c, a) \<Rightarrow>
             (case (case c of
                      Startup \<Rightarrow> resume a r (state cfg)
                    | LinkDevice \<Rightarrow> link_device_resume a r (state cfg)) of
                (es, p, s') \<Rightarrow>
                  \<lparr>state = s',
                   pending = take i (pending cfg) @ suspend c p @ drop (Suc i) (pending cfg),
                   history = history cfg @ es\<rparr>))
      else cfg)"
| "fire (Qr qr) cfg = handle (on_qr qr (state cfg)) cfg"
| "fire (Ready emitter) cfg = handle (on_ready (library_ready emitter (state cfg))) cfg"
| "fire (AuthFailure msg) cfg = handle (on_auth_failure msg (state cfg)) cfg"
| "fire Disconnected cfg = handle (on_disconnected (state cfg)) cfg"

definition run :: "event list \<Rightarrow> config \<Rightarrow> config" where
  "run evs cfg = foldl (\<lambda>c ev. fire ev c) cfg evs"

text \<open>The process at module load, before line 177.\<close>

definition initial :: config where
  "initial =
     \<lparr>state = \<lparr>client = None, isClientInitializing = False, qrCodeContent = None, constructed = 0\<rparr>,
      pending = [], history = []\<rparr>"

text \<open>The handshakes begun, the responses sent and the sends issued among some effects.\<close>

fun handshakes :: "effect list \<Rightarrow> nat list" where
  "handshakes [] = []"
| "handshakes (Initialize c # es) = c # handshakes es"
| "handshakes (_ # es) = handshakes es"

fun responses :: "effect list \<Rightarrow> (nat \<times> body) list" where
  "responses [] = []"
| "responses (Respond code b # es) = (code, b) # responses es"
| "responses (_ # es) = responses es"

fun sends :: "effect list \<Rightarrow> (string \<times> string) list" where
  "sends [] = []"
| "sends (SendMessage c address message # es) = (address, message) # sends es"
| "sends (_ # es) = sends es"

fun delays :: "effect list \<Rightarrow> nat list" where
  "delays [] = []"
| "delays (Delay ms # es) = ms # delays es"
| "delays (_ # es) = delays es"

text \<open>
  The number of console lines \<open>Message sent to ...\<close> (line 136) among some effects: one
  for each send that the run saw resolve. The count exists on the console only; no
  variable of the handler holds it and no response carries it.
\<close>

fun confirmations :: "effect list \<Rightarrow> nat" where
  "confirmations [] = 0"
| "confirmations (Console (LogSent number) # es) = Suc (confirmations es)"
| "confirmations (_ # es) = confirmations es"

section \<open>\<open>POST /send-messages\<close> (index.js lines 106--152)\<close>

text \<open>Line 102 with the two console lines of \<open>parseExcelFile\<close> (lines 90 and 101).\<close>

definition parseExcelFile :: "buffer \<Rightarrow> effect list \<times> (error + string list)" where
  "parseExcelFile buf =
     (case buf of
        Unreadable e \<Rightarrow> ([], Inl e)
      | Workbook data \<Rightarrow>
          (case mobileNumbers data of
             Inl e \<Rightarrow> ([Console (LogRaw data)], Inl e)
           | Inr numbers \<Rightarrow> ([Console (LogRaw data), Console (LogExtracted numbers)], Inr numbers)))"

definition null_client :: error where
  "null_client = ''TypeError: Cannot read properties of null (reading 'sendMessage')''"

text \<open>
  Lines 129--145, the loop over \<open>mobileNumbers.entries()\<close>, from position \<open>index\<close> on.
  The loop reads the module variable \<open>client\<close> anew at each send, and the handlers of
  the client's events may have assigned it while the loop was waiting: \<open>clients index\<close> is its value
  when the send of position \<open>index\<close> is reached, \<open>settles index\<close> is how the promise of that
  send settles. The result is the effects and the exception that left the loop, if any.
\<close>

fun sendLoop ::
  "(nat \<Rightarrow> Client option) \<Rightarrow> (nat \<Rightarrow> settled) \<Rightarrow> string \<Rightarrow> nat \<Rightarrow> nat \<Rightarrow> string list
     \<Rightarrow> effect list \<times> error option" where
  "sendLoop clients settles message len index [] = ([], None)"
| "sendLoop clients settles message len index (number # rest) =
     (case clients index of
        None \<Rightarrow> ([Console (LogSending number (index + 1) len)], Some null_client)
      | Some c \<Rightarrow>
          (case settles index of
             Rejected e \<Rightarrow>
               ([Console (LogSending number (index + 1) len),
                 SendMessage (cid c) (number @ ''@c.us'') message], Some e)
           | Resolved \<Rightarrow>
               (case sendLoop clients settles message len (index + 1) rest of
                  (es, r) \<Rightarrow>
                    ([Console (LogSending number (index + 1) len),
                      SendMessage (cid c) (number @ ''@c.us'') message,
                      Console (LogSent number)]
                     @ (if int index < int len - 1
                        then [Console (Log ''Waiting for 15 seconds before sending the next message...''),
                              Delay 15000]
                        else [])
                     @ es, r))))"

text \<open>Lines 148--151, the \<open>catch\<close> block of the handler.\<close>

definition catch_send :: "error \<Rightarrow> effect list" where
  "catch_send e = [Console (LogError ''Error:'' e), Respond 500 (Error ''Failed to send messages.'')]"

text \<open>
  The whole handler: \<open>file\<close> is \<open>req.file\<close>, \<open>message\<close> is \<open>req.body.message\<close>, \<open>s\<close> the module
  variables when the request arrives. No \<open>await\<close> lies between the check of line 120 and
  the first send, so the first send uses the \<open>client\<close> of \<open>s\<close>; \<open>later\<close> gives its value at
  the sends after that.
\<close>

definition send_messages ::
  "buffer option \<Rightarrow> string option \<Rightarrow> server \<Rightarrow> (nat \<Rightarrow> Client option) \<Rightarrow> (nat \<Rightarrow> settled)
     \<Rightarrow> effect list" where
  "send_messages file message s later settles =
     (case file of
        None \<Rightarrow> [Respond 400 (Error ''File and message are required.'')]
      | Some buf \<Rightarrow>
          if \<not> truthy message then [Respond 400 (Error ''File and message are required.'')]
          else
            (case parseExcelFile buf of
               (ls, Inl e) \<Rightarrow> ls @ catch_send e
             | (ls, Inr numbers) \<Rightarrow>
                 if length numbers = 0 then
                   ls @ [Respond 400 (Error ''No valid mobile numbers found.'')]
                 else if (case client s of None \<Rightarrow> True | Some c \<Rightarrow> \<not> info c) then
                   ls @ [Respond 500 (Error ''WhatsApp client is not initialized or ready.'')]
                 else
                   (case sendLoop (\<lambda>i. if i = 0 then client s else later i) settles
                           (case message of Some m \<Rightarrow> m | None \<Rightarrow> []) (length numbers) 0 numbers of
                      (es, None) \<Rightarrow>
                        ls @ Console (LogCount (length numbers)) # es
                          @ [Respond 200 (Message ''Messages sent successfully!'')]
                    | (es, Some e) \<Rightarrow>
                        ls @ Console (LogCount (length numbers)) # es @ catch_send e)))"

text \<open>
  Line 107, before the \<open>try\<close>: \<open>const { message } = req.body\<close>. On a request that is not
  multipart the middleware leaves \<open>req.body\<close> undefined (\<open>body = None\<close>) and the line
  throws; nothing in the handler catches it. Otherwise \<open>body\<close> holds the field \<open>message\<close>,
  if the request has one, and the handler goes on as \<open>send_messages\<close>.
\<close>

definition no_body :: error where
  "no_body = ''TypeError: Cannot destructure property 'message' of 'req.body' as it is undefined.''"

definition post_send_messages ::
  "string option option \<Rightarrow> buffer option \<Rightarrow> server \<Rightarrow> (nat \<Rightarrow> Client option)
     \<Rightarrow> (nat \<Rightarrow> settled) \<Rightarrow> error + effect list" where
  "post_send_messages body file s later settles =
     (case body of
        None \<Rightarrow> Inl no_body
      | Some message \<Rightarrow> Inr (send_messages file message s later settles))"

section \<open>Observations and the guard invariant\<close>

text \<open>The broadcasts \<open>io.emit(event, payload)\<close> among some effects.\<close>

fun emits :: "effect list \<Rightarrow> (string \<times> string option) list" where
  "emits [] = []"
| "emits (Emit ev p # es) = (ev, p) # emits es"
| "emits (_ # es) = emits es"

text \<open>The sends (by address) and the delays (by length) of a run, in the order they happen.\<close>

fun pacing :: "effect list \<Rightarrow> (string + nat) list" where
  "pacing [] = []"
| "pacing (SendMessage c address message # es) = Inl address # pacing es"
| "pacing (Delay ms # es) = Inr ms # pacing es"
| "pacing (_ # es) = pacing es"

text \<open>
  The lines \<open>Sending message to ${number} (${index + 1}/${mobileNumbers.length})...\<close> of
  a run (line 130), and its \<open>console.error\<close> lines.
\<close>

fun attempts :: "effect list \<Rightarrow> (string \<times> nat \<times> nat) list" where
  "attempts [] = []"
| "attempts (Console (LogSending number i n) # es) = (number, i, n) # attempts es"
| "attempts (_ # es) = attempts es"

fun failures :: "effect list \<Rightarrow> (string \<times> error) list" where
  "failures [] = []"
| "failures (Console (LogError text e) # es) = (text, e) # failures es"
| "failures (_ # es) = failures es"

text \<open>
  The invariant of the guard: at most one call is suspended, and while the flag is down no
  call is suspended and no client exists.
\<close>

definition guarded :: "config \<Rightarrow> bool" where
  "guarded cfg \<longleftrightarrow>
     length (pending cfg) \<le> 1
     \<and> (isClientInitializing (state cfg) \<or> (pending cfg = [] \<and> client (state cfg) = None))"

section \<open>Properties of the extraction\<close>

lemmas extraction_defs =
  parseExcelFile_def mobileNumbers_def toString_def digits.simps digit_char_def
  trim_def white_space_def numeric_def is_digit_def

lemma example_number_safe: "isSafeInteger 919999999999"
  by (simp add: isSafeInteger_def)

lemma keep_numeric_numeric:
  "keep_numeric cs = Inr ss \<Longrightarrow> list_all (\<lambda>s. numeric (trim s)) ss"
  by (induction cs arbitrary: ss rule: keep_numeric.induct) (auto split: sum.splits if_splits)

lemma mobileNumbers_numeric:
  assumes "mobileNumbers data = Inr numbers"
  shows "list_all numeric numbers"
proof -
  from assms obtain ss
    where k: "keep_numeric (map stringify (filter (\<lambda>num. num \<noteq> Undefined)
                (map first_column (drop 1 data)))) = Inr ss"
      and n: "numbers = map trim ss"
    by (auto simp: mobileNumbers_def split: sum.splits)
  from keep_numeric_numeric [OF k] show ?thesis
    by (simp add: n list_all_iff)
qed

lemma parseExcelFile_numeric:
  "snd (parseExcelFile buf) = Inr numbers \<Longrightarrow> list_all numeric numbers"
  by (auto simp: parseExcelFile_def mobileNumbers_numeric split: buffer.splits sum.splits)

text \<open>
  Claim C7. The rows \<open>["MobileNumber"], [919999999999], ["abc"], [" 888 "]\<close> give exactly
  the recipients \<open>"919999999999"\<close> and \<open>"888"\<close>: the header row and the non-numeric cell are
  dropped, the number is written as a string, the white space is trimmed. Whatever the
  file, every recipient that the extraction returns matches \<open>^[0-9]+$\<close>.
\<close>

theorem C7_extraction:
  "snd (parseExcelFile (Workbook
          [[String ''MobileNumber''], [Number 919999999999], [String ''abc''], [String '' 888 '']]))
     = Inr [''919999999999'', ''888'']
   \<and> (\<forall>buf numbers. snd (parseExcelFile buf) = Inr numbers \<longrightarrow> list_all numeric numbers)"
proof
  show "snd (parseExcelFile (Workbook
          [[String ''MobileNumber''], [Number 919999999999], [String ''abc''], [String '' 888 '']]))
     = Inr [''919999999999'', ''888'']"
    by (simp add: extraction_defs)
  show "\<forall>buf numbers. snd (parseExcelFile buf) = Inr numbers \<longrightarrow> list_all numeric numbers"
    using parseExcelFile_numeric by blast
qed

theorem C7_extraction_witness:
  "snd (parseExcelFile (Workbook
          [[String ''MobileNumber''], [Number 919999999999], [String ''abc''], [String '' 888 '']]))
     = Inr [''919999999999'', ''888'']
   \<and> list_all numeric [''919999999999'', ''888'']"
  using C7_extraction by blast

section \<open>Properties of the session manager\<close>

lemma handshakes_append: "handshakes (xs @ ys) = handshakes xs @ handshakes ys"
  by (induction xs rule: handshakes.induct) simp_all

lemma responses_append: "responses (xs @ ys) = responses xs @ responses ys"
  by (induction xs rule: responses.induct) simp_all

lemma emits_append: "emits (xs @ ys) = emits xs @ emits ys"
  by (induction xs rule: emits.induct) simp_all

lemma run_Nil: "run [] cfg = cfg"
  by (simp add: run_def)

lemma run_Cons: "run (ev # evs) cfg = run evs (fire ev cfg)"
  by (simp add: run_def)

lemmas session_defs =
  initializeWhatsAppClient_def construct_and_initialize_def catch_initialize_def
  link_device_def link_device_respond_def link_device_resume_def truthy_def
  on_qr_def on_ready_def on_auth_failure_def on_disconnected_def library_ready_def
  handle_def suspend_def run_def initial_def

lemma guarded_initial: "guarded initial"
  by (simp add: guarded_def initial_def)

lemma guarded_fire:
  assumes g: "guarded cfg"
  shows "guarded (fire ev cfg)"
proof (cases ev)
  case Boot
  with g show ?thesis
    by (auto simp: guarded_def initializeWhatsAppClient_def construct_and_initialize_def
        suspend_def Let_def split: option.splits)
next
  case GetLinkDevice
  with g show ?thesis
    by (auto simp: guarded_def link_device_def initializeWhatsAppClient_def
        construct_and_initialize_def suspend_def Let_def split: option.splits)
next
  case (Settle i r)
  show ?thesis
  proof (cases "i < length (pending cfg)")
    case False
    with g Settle show ?thesis by simp
  next
    case True
    with g have i: "i = 0" and l: "length (pending cfg) = 1"
      and f: "isClientInitializing (state cfg)"
      by (auto simp: guarded_def)
    from l obtain c a where p: "pending cfg = [(c, a)]"
      by (cases "pending cfg") auto
    show ?thesis using Settle i p f
      by (cases a; cases r; cases c)
        (auto simp: guarded_def link_device_resume_def construct_and_initialize_def
          catch_initialize_def suspend_def)
  qed
next
  case (Qr q)
  with g show ?thesis by (auto simp: guarded_def handle_def on_qr_def)
next
  case (Ready emitter)
  with g show ?thesis by (auto simp: guarded_def handle_def on_ready_def library_ready_def)
next
  case (AuthFailure m)
  with g show ?thesis by (auto simp: guarded_def handle_def on_auth_failure_def)
next
  case Disconnected
  with g show ?thesis by (auto simp: guarded_def handle_def on_disconnected_def)
qed

lemma guarded_run: "guarded cfg \<Longrightarrow> guarded (run evs cfg)"
  by (induction evs arbitrary: cfg) (simp_all add: run_Nil run_Cons guarded_fire)

lemma guarded_reachable: "guarded (run evs initial)"
  by (rule guarded_run [OF guarded_initial])

text \<open>
  Once the flag is up and no call is suspended, nothing the loop can run lowers the flag,
  suspends a call or begins a handshake.
\<close>

lemma flag_stays_fire:
  assumes "isClientInitializing (state cfg)" and "pending cfg = []"
  shows "isClientInitializing (state (fire ev cfg)) \<and> pending (fire ev cfg) = []
    \<and> handshakes (history (fire ev cfg)) = handshakes (history cfg)"
  using assms by (cases ev) (simp_all add: session_defs handshakes_append)

lemma flag_stays_run:
  assumes "isClientInitializing (state cfg)" and "pending cfg = []"
  shows "isClientInitializing (state (run evs cfg)) \<and> pending (run evs cfg) = []
    \<and> handshakes (history (run evs cfg)) = handshakes (history cfg)"
  using assms
proof (induction evs arbitrary: cfg)
  case Nil
  then show ?case by (simp add: run_Nil)
next
  case (Cons ev evs)
  from flag_stays_fire [OF Cons.prems]
  have f: "isClientInitializing (state (fire ev cfg))" "pending (fire ev cfg) = []"
    and h: "handshakes (history (fire ev cfg)) = handshakes (history cfg)"
    by simp_all
  from Cons.IH [OF f] h show ?case
    by (simp add: run_Cons)
qed

text \<open>
  Claim C1 says that \<open>initializeWhatsAppClient\<close> is a no-op only while the session is
  initializing, and that in the states Ready and Absent it tears the session down and
  begins a new handshake. The code releases the guard only in its \<open>catch\<close> block: after a
  handshake that succeeded the flag stays up. Here the process starts, the handshake
  resolves, a QR code is shown and the session becomes ready. A call in that state does
  nothing but print \<open>Client is already initializing...\<close>; after a disconnect (no client
  left) a \<open>GET /link-device\<close> answers 200 while the only handshake of the history is still
  the first one; and whatever happens after the first handshake has resolved, the process
  never begins a second one.
\<close>

theorem C1_reinitialize_when_ready:
  "client (state (run [Boot, Settle 0 Resolved, Qr ''code'', Ready 0] initial))
     = Some \<lparr>cid = 0, info = True\<rparr>
   \<and> pending (run [Boot, Settle 0 Resolved, Qr ''code'', Ready 0] initial) = []
   \<and> initializeWhatsAppClient (state (run [Boot, Settle 0 Resolved, Qr ''code'', Ready 0] initial))
       = ([Console (Log ''Client is already initializing...'')], Returned,
          state (run [Boot, Settle 0 Resolved, Qr ''code'', Ready 0] initial))
   \<and> client (state (run [Boot, Settle 0 Resolved, Qr ''code'', Ready 0, Disconnected, GetLinkDevice]
         initial)) = None
   \<and> handshakes (history (run [Boot, Settle 0 Resolved, Qr ''code'', Ready 0, Disconnected,
         GetLinkDevice] initial)) = [0]
   \<and> responses (history (run [Boot, Settle 0 Resolved, Qr ''code'', Ready 0, Disconnected,
         GetLinkDevice] initial))
       = [(200, Message ''Device linking initiated. QR code will be generated.'')]
   \<and> (\<forall>evs. handshakes (history (run evs (run [Boot, Settle 0 Resolved] initial))) = [0])"
proof -
  have a: "isClientInitializing (state (run [Boot, Settle 0 Resolved] initial))"
    and b: "pending (run [Boot, Settle 0 Resolved] initial) = []"
    and c: "handshakes (history (run [Boot, Settle 0 Resolved] initial)) = [0]"
    by (simp_all add: session_defs)
  have "handshakes (history (run evs (run [Boot, Settle 0 Resolved] initial))) = [0]" for evs
    using flag_stays_run [OF a b, of evs] c by simp
  moreover have "client (state (run [Boot, Settle 0 Resolved, Qr ''code'', Ready 0] initial))
     = Some \<lparr>cid = 0, info = True\<rparr>
   \<and> pending (run [Boot, Settle 0 Resolved, Qr ''code'', Ready 0] initial) = []
   \<and> initializeWhatsAppClient (state (run [Boot, Settle 0 Resolved, Qr ''code'', Ready 0] initial))
       = ([Console (Log ''Client is already initializing...'')], Returned,
          state (run [Boot, Settle 0 Resolved, Qr ''code'', Ready 0] initial))
   \<and> client (state (run [Boot, Settle 0 Resolved, Qr ''code'', Ready 0, Disconnected, GetLinkDevice]
         initial)) = None
   \<and> handshakes (history (run [Boot, Settle 0 Resolved, Qr ''code'', Ready 0, Disconnected,
         GetLinkDevice] initial)) = [0]
   \<and> responses (history (run [Boot, Settle 0 Resolved, Qr ''code'', Ready 0, Disconnected,
         GetLinkDevice] initial))
       = [(200, Message ''Device linking initiated. QR code will be generated.'')]"
    by (simp add: session_defs)
  ultimately show ?thesis by blast
qed

text \<open>
  Claim C4. The guard is set in the first synchronous stretch of a call, before any
  \<open>await\<close>, whatever the state. In every configuration the process can reach, at most one
  call of \<open>initializeWhatsAppClient\<close> is suspended; while one is, a further call (from
  line 177 or from \<open>GET /link-device\<close>) begins no handshake and changes nothing but the
  console; and two calls in a row from a state with the flag down begin exactly one
  handshake.
\<close>

theorem C4_single_initialization:
  "isClientInitializing (snd (snd (initializeWhatsAppClient s)))
   \<and> length (pending (run evs initial)) \<le> 1
   \<and> (pending (run evs initial) \<noteq> [] \<longrightarrow>
        fire Boot (run evs initial)
          = (run evs initial)\<lparr>history := history (run evs initial)
                @ [Console (Log ''Client is already initializing...'')]\<rparr>
        \<and> handshakes (history (fire GetLinkDevice (run evs initial)))
          = handshakes (history (run evs initial)))
   \<and> (\<not> isClientInitializing (state (run evs initial)) \<longrightarrow>
        handshakes (history (fire Boot (fire Boot (run evs initial))))
          = handshakes (history (run evs initial)) @ [constructed (state (run evs initial))])"
proof -
  define cfg where "cfg = run evs initial"
  have g: "guarded cfg"
    unfolding cfg_def by (rule guarded_reachable)
  have 1: "isClientInitializing (snd (snd (initializeWhatsAppClient s)))"
    by (simp add: initializeWhatsAppClient_def construct_and_initialize_def Let_def
        split: option.splits)
  have 2: "length (pending cfg) \<le> 1"
    using g by (simp add: guarded_def)
  have 3: "fire Boot cfg
      = cfg\<lparr>history := history cfg @ [Console (Log ''Client is already initializing...'')]\<rparr>"
    and 4: "handshakes (history (fire GetLinkDevice cfg)) = handshakes (history cfg)"
    if "pending cfg \<noteq> []"
  proof -
    from g that have f: "isClientInitializing (state cfg)"
      by (auto simp: guarded_def)
    show "fire Boot cfg
        = cfg\<lparr>history := history cfg @ [Console (Log ''Client is already initializing...'')]\<rparr>"
      using f by (simp add: initializeWhatsAppClient_def suspend_def)
    show "handshakes (history (fire GetLinkDevice cfg)) = handshakes (history cfg)"
      using f by (simp add: link_device_def initializeWhatsAppClient_def suspend_def
          link_device_respond_def handshakes_append)
  qed
  have 5: "handshakes (history (fire Boot (fire Boot cfg)))
          = handshakes (history cfg) @ [constructed (state cfg)]"
    if "\<not> isClientInitializing (state cfg)"
  proof -
    from g that have "client (state cfg) = None"
      by (auto simp: guarded_def)
    with that show ?thesis
      by (simp add: initializeWhatsAppClient_def construct_and_initialize_def suspend_def
          handshakes_append)
  qed
  show ?thesis
    using 1 2 3 4 5 unfolding cfg_def by blast
qed

theorem C4_single_initialization_witness:
  "pending (run [Boot] initial) \<noteq> []
   \<and> handshakes (history (fire GetLinkDevice (run [Boot] initial))) = [0]
   \<and> \<not> isClientInitializing (state (run [] initial))
   \<and> handshakes (history (fire Boot (fire Boot (run [] initial)))) = [0]"
proof -
  have a: "pending (run [Boot] initial) \<noteq> []"
    by (simp add: session_defs)
  have b: "\<not> isClientInitializing (state (run [] initial))"
    by (simp add: session_defs)
  have c: "handshakes (history (run [Boot] initial)) = [0]"
    by (simp add: session_defs)
  have d: "handshakes (history (run [] initial)) @ [constructed (state (run [] initial))] = [0]"
    by (simp add: session_defs)
  from C4_single_initialization [of _ "[Boot]"] a c
  have "handshakes (history (fire GetLinkDevice (run [Boot] initial))) = [0]"
    by simp
  moreover from C4_single_initialization [of _ "[]"] b d
  have "handshakes (history (fire Boot (fire Boot (run [] initial)))) = [0]"
    by simp
  ultimately show ?thesis using a b by blast
qed

text \<open>
  Claim C5 as it is written fails where it says that the handler answers at once, without
  waiting for the handshake. The handler awaits \<open>initializeWhatsAppClient\<close> (line 165), which
  awaits \<open>client.initialize()\<close>. After a start-up whose handshake was rejected (flag down,
  no payload), a \<open>GET /link-device\<close> begins the second handshake and is left suspended with
  no response sent; the 200 goes out when that handshake settles.
\<close>

theorem C5_link_device_counterexample:
  "qrCodeContent (state (run [Boot, Settle 0 (Rejected ''launch failed'')] initial)) = None
   \<and> pending (run [Boot, Settle 0 (Rejected ''launch failed''), GetLinkDevice] initial)
       = [(LinkDevice, ClientInitialize)]
   \<and> handshakes (history (run [Boot, Settle 0 (Rejected ''launch failed''), GetLinkDevice]
         initial)) = [0, 1]
   \<and> responses (history (run [Boot, Settle 0 (Rejected ''launch failed''), GetLinkDevice]
         initial)) = []
   \<and> responses (history (run [Boot, Settle 0 (Rejected ''launch failed''), GetLinkDevice,
         Settle 0 Resolved] initial))
       = [(200, Message ''Device linking initiated. QR code will be generated.'')]"
  by (simp add: session_defs)

text \<open>
  Claim C5, amended. With a non-empty payload stored, the handler broadcasts it again,
  answers 200 and does nothing else. Otherwise it calls \<open>initializeWhatsAppClient\<close>: its
  effects are the console line of line 164 followed by those of the call, and the state
  and the suspension are those of the call. It answers 200 when that call has returned:
  at once, with no handshake begun, when the guard flag is up; when the flag is down the
  call raises the flag and begins its teardown or its handshake, no response is sent, and
  the 200 follows when the call, resumed, has returned, which it does as soon as the
  awaited handshake settles, resolved or rejected. In every configuration the process can
  reach with the flag down and no payload, the request begins exactly one handshake and
  is left suspended on it, and its 200 is sent when that handshake settles.
\<close>

theorem C5_link_device:
  "(truthy (qrCodeContent s) \<longrightarrow>
      link_device s
        = ([Emit ''qr'' (qrCodeContent s),
            Respond 200 (Message ''QR code already generated. Scan to link the device.'')],
           Returned, s))
   \<and> (\<not> truthy (qrCodeContent s) \<and> isClientInitializing s \<longrightarrow>
      fst (snd (link_device s)) = Returned
      \<and> snd (snd (link_device s)) = s
      \<and> handshakes (fst (link_device s)) = []
      \<and> responses (fst (link_device s))
          = [(200, Message ''Device linking initiated. QR code will be generated.'')])
   \<and> (\<not> truthy (qrCodeContent s) \<and> \<not> isClientInitializing s \<longrightarrow>
      fst (snd (link_device s)) \<noteq> Returned
      \<and> responses (fst (link_device s)) = [])
   \<and> responses (fst (link_device_resume a r s))
       = (if fst (snd (link_device_resume a r s)) = Returned
          then [(200, Message ''Device linking initiated. QR code will be generated.'')] else [])
   \<and> fst (snd (link_device_resume ClientInitialize r s)) = Returned
   \<and> (\<not> truthy (qrCodeContent s) \<longrightarrow>
      link_device s
        = (Console (Log ''Initializing client for QR code generation...'')
             # fst (initializeWhatsAppClient s)
             @ (if fst (snd (initializeWhatsAppClient s)) = Returned
                then [Respond 200 (Message ''Device linking initiated. QR code will be generated.'')]
                else []),
           fst (snd (initializeWhatsAppClient s)),
           snd (snd (initializeWhatsAppClient s))))
   \<and> (\<not> truthy (qrCodeContent s) \<and> \<not> isClientInitializing s \<longrightarrow>
      isClientInitializing (snd (snd (link_device s)))
      \<and> fst (snd (link_device s))
          = (if client s = None then Awaiting ClientInitialize else Awaiting ClientDestroy)
      \<and> handshakes (fst (link_device s)) = (if client s = None then [constructed s] else []))
   \<and> (\<not> truthy (qrCodeContent (state (run evs initial)))
        \<and> \<not> isClientInitializing (state (run evs initial)) \<longrightarrow>
      pending (fire GetLinkDevice (run evs initial)) = [(LinkDevice, ClientInitialize)]
      \<and> handshakes (history (fire GetLinkDevice (run evs initial)))
          = handshakes (history (run evs initial)) @ [constructed (state (run evs initial))]
      \<and> responses (history (fire GetLinkDevice (run evs initial)))
          = responses (history (run evs initial))
      \<and> responses (history (fire (Settle 0 r) (fire GetLinkDevice (run evs initial))))
          = responses (history (run evs initial))
            @ [(200, Message ''Device linking initiated. QR code will be generated.'')])"
proof -
  have 1: "truthy (qrCodeContent s) \<longrightarrow>
      link_device s
        = ([Emit ''qr'' (qrCodeContent s),
            Respond 200 (Message ''QR code already generated. Scan to link the device.'')],
           Returned, s)"
    by (simp add: link_device_def)
  have 2: "\<not> truthy (qrCodeContent s) \<and> isClientInitializing s \<longrightarrow>
      fst (snd (link_device s)) = Returned
      \<and> snd (snd (link_device s)) = s
      \<and> handshakes (fst (link_device s)) = []
      \<and> responses (fst (link_device s))
          = [(200, Message ''Device linking initiated. QR code will be generated.'')]"
    by (simp add: link_device_def initializeWhatsAppClient_def link_device_respond_def)
  have 3: "\<not> truthy (qrCodeContent s) \<and> \<not> isClientInitializing s \<longrightarrow>
      fst (snd (link_device s)) \<noteq> Returned
      \<and> responses (fst (link_device s)) = []"
    by (auto simp: link_device_def initializeWhatsAppClient_def link_device_respond_def
        construct_and_initialize_def Let_def split: option.splits)
  have 4: "responses (fst (link_device_resume a r s))
       = (if fst (snd (link_device_resume a r s)) = Returned
          then [(200, Message ''Device linking initiated. QR code will be generated.'')] else [])"
    by (cases a; cases r)
      (simp_all add: link_device_resume_def link_device_respond_def construct_and_initialize_def
        catch_initialize_def)
  have 5: "fst (snd (link_device_resume ClientInitialize r s)) = Returned"
    by (cases r) (simp_all add: link_device_resume_def catch_initialize_def)
  have 6: "\<not> truthy (qrCodeContent s) \<longrightarrow>
      link_device s
        = (Console (Log ''Initializing client for QR code generation...'')
             # fst (initializeWhatsAppClient s)
             @ (if fst (snd (initializeWhatsAppClient s)) = Returned
                then [Respond 200 (Message ''Device linking initiated. QR code will be generated.'')]
                else []),
           fst (snd (initializeWhatsAppClient s)),
           snd (snd (initializeWhatsAppClient s)))"
    by (cases "fst (snd (initializeWhatsAppClient s))")
      (simp_all add: link_device_def link_device_respond_def case_prod_beta)
  have 7: "\<not> truthy (qrCodeContent s) \<and> \<not> isClientInitializing s \<longrightarrow>
      isClientInitializing (snd (snd (link_device s)))
      \<and> fst (snd (link_device s))
          = (if client s = None then Awaiting ClientInitialize else Awaiting ClientDestroy)
      \<and> handshakes (fst (link_device s)) = (if client s = None then [constructed s] else [])"
    by (auto simp: link_device_def initializeWhatsAppClient_def link_device_respond_def
        construct_and_initialize_def Let_def split: option.splits)
  define cfg where "cfg = run evs initial"
  have g: "guarded cfg"
    unfolding cfg_def by (rule guarded_reachable)
  have 8: "pending (fire GetLinkDevice cfg) = [(LinkDevice, ClientInitialize)]
      \<and> handshakes (history (fire GetLinkDevice cfg))
          = handshakes (history cfg) @ [constructed (state cfg)]
      \<and> responses (history (fire GetLinkDevice cfg)) = responses (history cfg)
      \<and> responses (history (fire (Settle 0 r) (fire GetLinkDevice cfg)))
          = responses (history cfg)
            @ [(200, Message ''Device linking initiated. QR code will be generated.'')]"
    if q: "\<not> truthy (qrCodeContent (state cfg))" and f: "\<not> isClientInitializing (state cfg)"
  proof -
    from g f have e: "pending cfg = []" "client (state cfg) = None"
      by (auto simp: guarded_def)
    have p: "fire GetLinkDevice cfg
        = \<lparr>state = (state cfg)\<lparr>isClientInitializing := True,
                       client := Some \<lparr>cid = constructed (state cfg), info = False\<rparr>,
                       constructed := constructed (state cfg) + 1\<rparr>,
           pending = [(LinkDevice, ClientInitialize)],
           history = history cfg
             @ [Console (Log ''Initializing client for QR code generation...''),
                Console (Log ''Initializing new WhatsApp client...''),
                NewClient (constructed (state cfg)), Initialize (constructed (state cfg))]\<rparr>"
      using q f e
      by (simp add: link_device_def initializeWhatsAppClient_def construct_and_initialize_def
          link_device_respond_def suspend_def)
    show ?thesis
      unfolding p
      by (cases r)
        (simp_all add: link_device_resume_def link_device_respond_def catch_initialize_def
          suspend_def handshakes_append responses_append)
  qed
  show ?thesis
    using 1 2 3 4 5 6 7 8 unfolding cfg_def by blast
qed

theorem C5_link_device_witness:
  "truthy (qrCodeContent (state (run [Boot, Settle 0 Resolved, Qr ''code''] initial)))
   \<and> fst (link_device (state (run [Boot, Settle 0 Resolved, Qr ''code''] initial)))
       = [Emit ''qr'' (Some ''code''),
          Respond 200 (Message ''QR code already generated. Scan to link the device.'')]
   \<and> \<not> truthy (qrCodeContent (state (run [Boot] initial)))
   \<and> isClientInitializing (state (run [Boot] initial))
   \<and> responses (fst (link_device (state (run [Boot] initial))))
       = [(200, Message ''Device linking initiated. QR code will be generated.'')]
   \<and> \<not> truthy (qrCodeContent (state (run [Boot, Settle 0 (Rejected ''launch failed'')] initial)))
   \<and> \<not> isClientInitializing (state (run [Boot, Settle 0 (Rejected ''launch failed'')] initial))
   \<and> responses (fst (link_device (state (run [Boot, Settle 0 (Rejected ''launch failed'')] initial))))
       = []
   \<and> handshakes (fst (link_device (state (run [Boot, Settle 0 (Rejected ''launch failed'')] initial))))
       = [1]
   \<and> pending (fire GetLinkDevice (run [Boot, Settle 0 (Rejected ''launch failed'')] initial))
       = [(LinkDevice, ClientInitialize)]
   \<and> responses (history (fire (Settle 0 Resolved)
        (fire GetLinkDevice (run [Boot, Settle 0 (Rejected ''launch failed'')] initial))))
       = [(200, Message ''Device linking initiated. QR code will be generated.'')]"
proof -
  have a: "truthy (qrCodeContent (state (run [Boot, Settle 0 Resolved, Qr ''code''] initial)))"
    and a': "qrCodeContent (state (run [Boot, Settle 0 Resolved, Qr ''code''] initial)) = Some ''code''"
    by (simp_all add: session_defs)
  have b: "\<not> truthy (qrCodeContent (state (run [Boot] initial)))
      \<and> isClientInitializing (state (run [Boot] initial))"
    by (simp add: session_defs)
  have c: "\<not> truthy (qrCodeContent (state (run [Boot, Settle 0 (Rejected ''launch failed'')] initial)))
      \<and> \<not> isClientInitializing (state (run [Boot, Settle 0 (Rejected ''launch failed'')] initial))"
    by (simp add: session_defs)
  have d: "client (state (run [Boot, Settle 0 (Rejected ''launch failed'')] initial)) = None"
    "constructed (state (run [Boot, Settle 0 (Rejected ''launch failed'')] initial)) = 1"
    "responses (history (run [Boot, Settle 0 (Rejected ''launch failed'')] initial)) = []"
    by (simp_all add: session_defs)
  from C5_link_device [where s = "state (run [Boot, Settle 0 Resolved, Qr ''code''] initial)"] a a'
  have "fst (link_device (state (run [Boot, Settle 0 Resolved, Qr ''code''] initial)))
       = [Emit ''qr'' (Some ''code''),
          Respond 200 (Message ''QR code already generated. Scan to link the device.'')]"
    by simp
  moreover from C5_link_device [where s = "state (run [Boot] initial)"] b
  have "responses (fst (link_device (state (run [Boot] initial))))
       = [(200, Message ''Device linking initiated. QR code will be generated.'')]"
    by blast
  moreover
  from C5_link_device [where s = "state (run [Boot, Settle 0 (Rejected ''launch failed'')] initial)"
      and evs = "[Boot, Settle 0 (Rejected ''launch failed'')]" and r = Resolved] c
  have "responses (fst (link_device (state (run [Boot, Settle 0 (Rejected ''launch failed'')] initial))))
       = []
   \<and> handshakes (fst (link_device (state (run [Boot, Settle 0 (Rejected ''launch failed'')] initial))))
       = (if client (state (run [Boot, Settle 0 (Rejected ''launch failed'')] initial)) = None
          then [constructed (state (run [Boot, Settle 0 (Rejected ''launch failed'')] initial))]
          else [])
   \<and> pending (fire GetLinkDevice (run [Boot, Settle 0 (Rejected ''launch failed'')] initial))
       = [(LinkDevice, ClientInitialize)]
   \<and> responses (history (fire (Settle 0 Resolved)
        (fire GetLinkDevice (run [Boot, Settle 0 (Rejected ''launch failed'')] initial))))
       = responses (history (run [Boot, Settle 0 (Rejected ''launch failed'')] initial))
         @ [(200, Message ''Device linking initiated. QR code will be generated.'')]"
    by blast
  then have "responses (fst (link_device (state (run [Boot, Settle 0 (Rejected ''launch failed'')] initial))))
       = []
   \<and> handshakes (fst (link_device (state (run [Boot, Settle 0 (Rejected ''launch failed'')] initial))))
       = [1]
   \<and> pending (fire GetLinkDevice (run [Boot, Settle 0 (Rejected ''launch failed'')] initial))
       = [(LinkDevice, ClientInitialize)]
   \<and> responses (history (fire (Settle 0 Resolved)
        (fire GetLinkDevice (run [Boot, Settle 0 (Rejected ''launch failed'')] initial))))
       = [(200, Message ''Device linking initiated. QR code will be generated.'')]"
    using d by (simp del: fire.simps)
  ultimately show ?thesis using a b c by blast
qed

text \<open>
  Claim C6 as it is written fails where it says that the session object is discarded: the
  handler of \<open>auth_failure\<close> (lines 58--65) assigns \<open>qrCodeContent\<close> only. After the start-up
  call, an authentication failure leaves the client that the call constructed in place,
  and the guard flag up.
\<close>

theorem C6_auth_failure_counterexample:
  "client (state (run [Boot, AuthFailure ''session expired''] initial))
     = Some \<lparr>cid = 0, info = False\<rparr>
   \<and> isClientInitializing (state (run [Boot, AuthFailure ''session expired''] initial))"
  by (simp add: session_defs)

text \<open>
  Claim C6, amended. On an authentication failure the stored linking payload is cleared
  and exactly one event is broadcast, \<open>auth_failure\<close> with the fixed text
  \<open>Authentication failed. Please re-scan the QR code.\<close>, whatever the message of the
  backend; the client object, the guard flag and the suspended calls stay as they were.
\<close>

theorem C6_auth_failure:
  "qrCodeContent (state (fire (AuthFailure msg) cfg)) = None
   \<and> client (state (fire (AuthFailure msg) cfg)) = client (state cfg)
   \<and> isClientInitializing (state (fire (AuthFailure msg) cfg)) = isClientInitializing (state cfg)
   \<and> pending (fire (AuthFailure msg) cfg) = pending cfg
   \<and> emits (history (fire (AuthFailure msg) cfg))
       = emits (history cfg)
         @ [(''auth_failure'', Some ''Authentication failed. Please re-scan the QR code.'')]"
  by (simp add: handle_def on_auth_failure_def emits_append)

lemma rejected_fire:
  assumes g: "guarded cfg" and i: "i < length (pending cfg)"
  shows "pending (fire (Settle i (Rejected e)) cfg) = []
    \<and> \<not> isClientInitializing (state (fire (Settle i (Rejected e)) cfg))
    \<and> client (state (fire (Settle i (Rejected e)) cfg)) = None"
proof -
  from g i have z: "i = 0" and l: "length (pending cfg) = 1"
    by (auto simp: guarded_def)
  from l obtain c a where p: "pending cfg = [(c, a)]"
    by (cases "pending cfg") auto
  show ?thesis using z p
    by (cases c) (simp_all add: link_device_resume_def catch_initialize_def suspend_def)
qed

text \<open>
  Claim C9. When the awaited handshake is rejected (and likewise the awaited teardown), the
  call is resumed in its \<open>catch\<close> block and returns: the guard flag is down and no client
  is left, so the next call is not refused but begins a handshake of its own, and a
  \<open>/link-device\<close> handler that awaited the call answers 200. In every configuration the
  process can reach, the rejection of what a suspended call awaits leaves no call
  suspended, the flag down and the client gone.
\<close>

theorem C9_initialization_error:
  "fst (snd (resume a (Rejected e) s)) = Returned
   \<and> \<not> isClientInitializing (snd (snd (resume a (Rejected e) s)))
   \<and> client (snd (snd (resume a (Rejected e) s))) = None
   \<and> handshakes (fst (initializeWhatsAppClient (snd (snd (resume a (Rejected e) s)))))
       = [constructed s]
   \<and> responses (fst (link_device_resume a (Rejected e) s))
       = [(200, Message ''Device linking initiated. QR code will be generated.'')]
   \<and> (i < length (pending (run evs initial)) \<longrightarrow>
        pending (fire (Settle i (Rejected e)) (run evs initial)) = []
        \<and> \<not> isClientInitializing (state (fire (Settle i (Rejected e)) (run evs initial)))
        \<and> client (state (fire (Settle i (Rejected e)) (run evs initial))) = None)"
proof -
  have "fst (snd (resume a (Rejected e) s)) = Returned
   \<and> \<not> isClientInitializing (snd (snd (resume a (Rejected e) s)))
   \<and> client (snd (snd (resume a (Rejected e) s))) = None
   \<and> handshakes (fst (initializeWhatsAppClient (snd (snd (resume a (Rejected e) s)))))
       = [constructed s]
   \<and> responses (fst (link_device_resume a (Rejected e) s))
       = [(200, Message ''Device linking initiated. QR code will be generated.'')]"
    by (simp add: session_defs)
  then show ?thesis
    using rejected_fire [OF guarded_reachable, of i evs e] by blast
qed

theorem C9_initialization_error_witness:
  "0 < length (pending (run [Boot] initial))
   \<and> pending (fire (Settle 0 (Rejected ''launch failed'')) (run [Boot] initial)) = []
   \<and> \<not> isClientInitializing (state (fire (Settle 0 (Rejected ''launch failed'')) (run [Boot] initial)))
   \<and> client (state (fire (Settle 0 (Rejected ''launch failed'')) (run [Boot] initial))) = None"
proof -
  have p: "0 < length (pending (run [Boot] initial))"
    by (simp add: session_defs)
  with C9_initialization_error [of _ "''launch failed''" _ 0 "[Boot]"]
  show ?thesis by blast
qed

section \<open>Properties of the send pipeline\<close>

lemma post_send_messages_body:
  "post_send_messages None file s later settles = Inl no_body"
  "post_send_messages (Some message) file s later settles
     = Inr (send_messages file message s later settles)"
  by (simp_all add: post_send_messages_def)

lemma sends_append: "sends (xs @ ys) = sends xs @ sends ys"
  by (induction xs rule: sends.induct) simp_all

lemma delays_append: "delays (xs @ ys) = delays xs @ delays ys"
  by (induction xs rule: delays.induct) simp_all

lemma confirmations_append: "confirmations (xs @ ys) = confirmations xs + confirmations ys"
  by (induction xs rule: confirmations.induct) simp_all

lemma pacing_append: "pacing (xs @ ys) = pacing xs @ pacing ys"
  by (induction xs rule: pacing.induct) simp_all

lemma attempts_append: "attempts (xs @ ys) = attempts xs @ attempts ys"
  by (induction xs rule: attempts.induct) simp_all

lemma failures_append: "failures (xs @ ys) = failures xs @ failures ys"
  by (induction xs rule: failures.induct) simp_all

lemmas projections_append =
  sends_append responses_append delays_append confirmations_append pacing_append attempts_append
  failures_append

text \<open>The two console lines of \<open>parseExcelFile\<close> are none of the effects observed.\<close>

lemma parseExcelFile_quiet:
  "sends (fst (parseExcelFile buf)) = []"
  "responses (fst (parseExcelFile buf)) = []"
  "delays (fst (parseExcelFile buf)) = []"
  "confirmations (fst (parseExcelFile buf)) = 0"
  "pacing (fst (parseExcelFile buf)) = []"
  "attempts (fst (parseExcelFile buf)) = []"
  "failures (fst (parseExcelFile buf)) = []"
  by (simp_all add: parseExcelFile_def split: buffer.splits sum.splits)

text \<open>The loop from position \<open>index\<close> on, when every send left is issued and resolves.\<close>

lemma sendLoop_resolved:
  assumes "len = index + length rest"
    and "\<forall>j<length rest. clients (index + j) \<noteq> None \<and> settles (index + j) = Resolved"
  shows "snd (sendLoop clients settles m len index rest) = None
    \<and> sends (fst (sendLoop clients settles m len index rest))
        = map (\<lambda>number. (number @ ''@c.us'', m)) rest
    \<and> delays (fst (sendLoop clients settles m len index rest)) = replicate (length rest - 1) 15000
    \<and> confirmations (fst (sendLoop clients settles m len index rest)) = length rest
    \<and> responses (fst (sendLoop clients settles m len index rest)) = []
    \<and> failures (fst (sendLoop clients settles m len index rest)) = []
    \<and> pacing (fst (sendLoop clients settles m len index rest))
        = (if rest = [] then []
           else concat (map (\<lambda>number. [Inl (number @ ''@c.us''), Inr 15000]) (butlast rest))
                @ [Inl (last rest @ ''@c.us'')])"
  using assms
proof (induction rest arbitrary: index)
  case Nil
  then show ?case by simp
next
  case (Cons number rest)
  from Cons.prems(2) have h: "clients index \<noteq> None" "settles index = Resolved"
    by force+
  have a: "len = Suc index + length rest"
    using Cons.prems(1) by simp
  have b: "\<forall>j<length rest. clients (Suc index + j) \<noteq> None \<and> settles (Suc index + j) = Resolved"
    using Cons.prems(2) by fastforce
  note ih = Cons.IH [OF a b]
  from h obtain c where c: "clients index = Some c" by auto
  show ?case
  proof (cases "rest = []")
    case True
    then show ?thesis using c h Cons.prems(1) by (simp add: case_prod_beta)
  next
    case False
    then obtain n where n: "length rest = Suc n" by (cases rest) auto
    show ?thesis using c h Cons.prems(1) ih False n
      by (simp add: projections_append case_prod_beta)
  qed
qed

text \<open>
  The loop from position \<open>index\<close> on, when the first \<open>k\<close> sends left resolve and the next
  one is issued and rejected.
\<close>

lemma sendLoop_rejected:
  assumes "len = index + length rest"
    and "k < length rest"
    and "\<forall>j<k. clients (index + j) \<noteq> None \<and> settles (index + j) = Resolved"
    and "clients (index + k) \<noteq> None"
    and "settles (index + k) = Rejected e"
  shows "snd (sendLoop clients settles m len index rest) = Some e
    \<and> sends (fst (sendLoop clients settles m len index rest))
        = map (\<lambda>number. (number @ ''@c.us'', m)) (take (Suc k) rest)
    \<and> delays (fst (sendLoop clients settles m len index rest)) = replicate k 15000
    \<and> confirmations (fst (sendLoop clients settles m len index rest)) = k
    \<and> responses (fst (sendLoop clients settles m len index rest)) = []
    \<and> failures (fst (sendLoop clients settles m len index rest)) = []
    \<and> last (attempts (fst (sendLoop clients settles m len index rest)))
        = (rest ! k, index + k + 1, len)
    \<and> attempts (fst (sendLoop clients settles m len index rest)) \<noteq> []
    \<and> pacing (fst (sendLoop clients settles m len index rest))
        = concat (map (\<lambda>number. [Inl (number @ ''@c.us''), Inr 15000]) (take k rest))
          @ [Inl (rest ! k @ ''@c.us'')]"
  using assms
proof (induction rest arbitrary: index k)
  case Nil
  then show ?case by simp
next
  case (Cons number rest)
  show ?case
  proof (cases k)
    case 0
    with Cons.prems show ?thesis by auto
  next
    case (Suc k')
    from Cons.prems(3) Suc have h: "clients index \<noteq> None" "settles index = Resolved"
      by force+
    then obtain c where c: "clients index = Some c" by auto
    have a: "len = Suc index + length rest" "k' < length rest"
      using Cons.prems(1,2) Suc by simp_all
    have b: "\<forall>j<k'. clients (Suc index + j) \<noteq> None \<and> settles (Suc index + j) = Resolved"
      using Cons.prems(3) Suc by fastforce
    have d: "clients (Suc index + k') \<noteq> None" "settles (Suc index + k') = Rejected e"
      using Cons.prems(4,5) Suc by simp_all
    note ih = Cons.IH [OF a b d]
    from a obtain n where n: "length rest = Suc n" by (cases "length rest") auto
    show ?thesis using c h Cons.prems(1) ih Suc n
      by (simp add: projections_append case_prod_beta)
  qed
qed

text \<open>
  The loop from position \<open>index\<close> on, when the first \<open>k\<close> sends left resolve and the
  variable \<open>client\<close> is null when the next one is reached: line 135 throws before any call.
\<close>

lemma sendLoop_null:
  assumes "len = index + length rest"
    and "k < length rest"
    and "\<forall>j<k. clients (index + j) \<noteq> None \<and> settles (index + j) = Resolved"
    and "clients (index + k) = None"
  shows "snd (sendLoop clients settles m len index rest) = Some null_client
    \<and> sends (fst (sendLoop clients settles m len index rest))
        = map (\<lambda>number. (number @ ''@c.us'', m)) (take k rest)
    \<and> delays (fst (sendLoop clients settles m len index rest)) = replicate k 15000
    \<and> confirmations (fst (sendLoop clients settles m len index rest)) = k
    \<and> responses (fst (sendLoop clients settles m len index rest)) = []
    \<and> failures (fst (sendLoop clients settles m len index rest)) = []
    \<and> last (attempts (fst (sendLoop clients settles m len index rest)))
        = (rest ! k, index + k + 1, len)
    \<and> attempts (fst (sendLoop clients settles m len index rest)) \<noteq> []
    \<and> pacing (fst (sendLoop clients settles m len index rest))
        = concat (map (\<lambda>number. [Inl (number @ ''@c.us''), Inr 15000]) (take k rest))"
  using assms
proof (induction rest arbitrary: index k)
  case Nil
  then show ?case by simp
next
  case (Cons number rest)
  show ?case
  proof (cases k)
    case 0
    with Cons.prems show ?thesis by auto
  next
    case (Suc k')
    from Cons.prems(3) Suc have h: "clients index \<noteq> None" "settles index = Resolved"
      by force+
    then obtain c where c: "clients index = Some c" by auto
    have a: "len = Suc index + length rest" "k' < length rest"
      using Cons.prems(1,2) Suc by simp_all
    have b: "\<forall>j<k'. clients (Suc index + j) \<noteq> None \<and> settles (Suc index + j) = Resolved"
      using Cons.prems(3) Suc by fastforce
    have d: "clients (Suc index + k') = None"
      using Cons.prems(4) Suc by simp
    note ih = Cons.IH [OF a b d]
    from a obtain n where n: "length rest = Suc n" by (cases "length rest") auto
    show ?thesis using c h Cons.prems(1) ih Suc n
      by (simp add: projections_append case_prod_beta)
  qed
qed

lemma sendLoop_addresses:
  "map fst (sends (fst (sendLoop clients settles m len index rest)))
     = map (\<lambda>number. number @ ''@c.us'')
         (take (length (sends (fst (sendLoop clients settles m len index rest)))) rest)"
  by (induction rest arbitrary: index)
    (auto simp: sends_append case_prod_beta split: option.splits settled.splits)

lemma address_not_numeric: "\<not> numeric (number @ ''@c.us'')"
  by (simp add: numeric_def is_digit_def)

text \<open>
  Claim C2 as it is written fails where it says that the run returns \<open>sentCount = N\<close>. What
  the handler returns to its caller is the response of line 147, a fixed text: a successful
  run over one recipient and a successful run over two recipients return the very same
  value, though the first issued one send and the second two.
\<close>

theorem C2_all_sends_succeed_counterexample:
  "responses (send_messages (Some (Workbook [[String ''MobileNumber''], [Number 111]]))
      (Some ''hello'')
      \<lparr>client = Some \<lparr>cid = 0, info = True\<rparr>, isClientInitializing = True,
         qrCodeContent = None, constructed = 1\<rparr>
      (\<lambda>i. Some \<lparr>cid = 0, info = True\<rparr>) (\<lambda>i. Resolved))
     = [(200, Message ''Messages sent successfully!'')]
   \<and> responses (send_messages
      (Some (Workbook [[String ''MobileNumber''], [Number 111], [Number 222]]))
      (Some ''hello'')
      \<lparr>client = Some \<lparr>cid = 0, info = True\<rparr>, isClientInitializing = True,
         qrCodeContent = None, constructed = 1\<rparr>
      (\<lambda>i. Some \<lparr>cid = 0, info = True\<rparr>) (\<lambda>i. Resolved))
     = [(200, Message ''Messages sent successfully!'')]
   \<and> length (sends (send_messages (Some (Workbook [[String ''MobileNumber''], [Number 111]]))
      (Some ''hello'')
      \<lparr>client = Some \<lparr>cid = 0, info = True\<rparr>, isClientInitializing = True,
         qrCodeContent = None, constructed = 1\<rparr>
      (\<lambda>i. Some \<lparr>cid = 0, info = True\<rparr>) (\<lambda>i. Resolved))) = 1
   \<and> length (sends (send_messages
      (Some (Workbook [[String ''MobileNumber''], [Number 111], [Number 222]]))
      (Some ''hello'')
      \<lparr>client = Some \<lparr>cid = 0, info = True\<rparr>, isClientInitializing = True,
         qrCodeContent = None, constructed = 1\<rparr>
      (\<lambda>i. Some \<lparr>cid = 0, info = True\<rparr>) (\<lambda>i. Resolved))) = 2"
  by (simp add: send_messages_def truthy_def extraction_defs)

text \<open>
  Claim C2, amended. A request with a file that yields the recipients \<open>numbers\<close> (at least
  one), a non-empty message and a ready session, in a run where every send is issued and
  resolves: the sends are exactly one per recipient, in the order of \<open>numbers\<close>, each to
  the recipient's address with the message; every send but the last is followed by one
  delay of 15000 ms, so there are \<open>length numbers - 1\<close> delays; and the run returns status
  200 with the fixed body \<open>Messages sent successfully!\<close>. No count is returned: the
  \<open>length numbers\<close> sends that resolved show as that many console lines
  \<open>Message sent to ...\<close> and nowhere else.
\<close>

theorem C2_all_sends_succeed:
  assumes "snd (parseExcelFile buf) = Inr numbers"
    and "numbers \<noteq> []" and "m \<noteq> []"
    and "client s = Some c" and "info c"
    and "\<forall>i<length numbers. (0 < i \<longrightarrow> later i \<noteq> None) \<and> settles i = Resolved"
  shows "let r = send_messages (Some buf) (Some m) s later settles in
      sends r = map (\<lambda>number. (number @ ''@c.us'', m)) numbers
    \<and> delays r = replicate (length numbers - 1) 15000
    \<and> pacing r = concat (map (\<lambda>number. [Inl (number @ ''@c.us''), Inr 15000]) (butlast numbers))
                  @ [Inl (last numbers @ ''@c.us'')]
    \<and> confirmations r = length numbers
    \<and> responses r = [(200, Message ''Messages sent successfully!'')]"
proof -
  let ?clients = "\<lambda>i. if i = 0 then client s else later i"
  let ?loop = "sendLoop ?clients settles m (length numbers) 0 numbers"
  have "\<forall>j<length numbers. ?clients (0 + j) \<noteq> None \<and> settles (0 + j) = Resolved"
    using assms(4,6) by simp
  from sendLoop_resolved [where index = 0 and m = m, OF _ this]
  have loop: "snd ?loop = None
    \<and> sends (fst ?loop) = map (\<lambda>number. (number @ ''@c.us'', m)) numbers
    \<and> delays (fst ?loop) = replicate (length numbers - 1) 15000
    \<and> confirmations (fst ?loop) = length numbers
    \<and> responses (fst ?loop) = []
    \<and> failures (fst ?loop) = []
    \<and> pacing (fst ?loop)
        = concat (map (\<lambda>number. [Inl (number @ ''@c.us''), Inr 15000]) (butlast numbers))
                @ [Inl (last numbers @ ''@c.us'')]"
    using assms(2) by simp
  obtain ls where p: "parseExcelFile buf = (ls, Inr numbers)"
    using assms(1) by (cases "parseExcelFile buf") simp
  obtain es where l: "?loop = (es, None)"
    using loop by (cases ?loop) simp
  have q: "sends ls = []" "delays ls = []" "pacing ls = []" "confirmations ls = 0" "responses ls = []"
    using parseExcelFile_quiet [of buf] p by simp_all
  have r: "send_messages (Some buf) (Some m) s later settles
      = ls @ Console (LogCount (length numbers)) # es
          @ [Respond 200 (Message ''Messages sent successfully!'')]"
    using assms(2,3,4,5) p l by (simp add: send_messages_def truthy_def)
  show ?thesis
    unfolding Let_def r using loop l q by (simp add: projections_append)
qed

theorem C2_all_sends_succeed_witness:
  "snd (parseExcelFile (Workbook [[String ''MobileNumber''], [Number 111], [String '' 222 '']]))
     = Inr [''111'', ''222'']
   \<and> (let r = send_messages
                (Some (Workbook [[String ''MobileNumber''], [Number 111], [String '' 222 '']]))
                (Some ''hello'')
                \<lparr>client = Some \<lparr>cid = 0, info = True\<rparr>, isClientInitializing = True,
                   qrCodeContent = None, constructed = 1\<rparr>
                (\<lambda>i. Some \<lparr>cid = 0, info = True\<rparr>) (\<lambda>i. Resolved) in
        sends r = [(''111@c.us'', ''hello''), (''222@c.us'', ''hello'')]
        \<and> delays r = [15000]
        \<and> pacing r = [Inl ''111@c.us'', Inr 15000, Inl ''222@c.us'']
        \<and> confirmations r = 2
        \<and> responses r = [(200, Message ''Messages sent successfully!'')])"
proof -
  have p: "snd (parseExcelFile (Workbook [[String ''MobileNumber''], [Number 111], [String '' 222 '']]))
     = Inr [''111'', ''222'']"
    by (simp add: extraction_defs)
  have "let r = send_messages
                (Some (Workbook [[String ''MobileNumber''], [Number 111], [String '' 222 '']]))
                (Some ''hello'')
                \<lparr>client = Some \<lparr>cid = 0, info = True\<rparr>, isClientInitializing = True,
                   qrCodeContent = None, constructed = 1\<rparr>
                (\<lambda>i. Some \<lparr>cid = 0, info = True\<rparr>) (\<lambda>i. Resolved) in
      sends r = map (\<lambda>number. (number @ ''@c.us'', ''hello'')) [''111'', ''222'']
    \<and> delays r = replicate (length [''111'', ''222''] - 1) 15000
    \<and> pacing r = concat (map (\<lambda>number. [Inl (number @ ''@c.us''), Inr 15000])
                    (butlast [''111'', ''222'']))
                  @ [Inl (last [''111'', ''222''] @ ''@c.us'')]
    \<and> confirmations r = length [''111'', ''222'']
    \<and> responses r = [(200, Message ''Messages sent successfully!'')]"
    by (rule C2_all_sends_succeed [where c = "\<lparr>cid = 0, info = True\<rparr>", OF p]) simp_all
  then show ?thesis
    using p by (simp add: Let_def)
qed

text \<open>
  Claim C3 as it is written fails in two places. First, nothing reports \<open>sentCount\<close> or
  \<open>firstFailure\<close>: the only report of a failed run is the response of lines 148--151, and
  it is the same whether the first or the third of three sends is rejected. Second, the
  \<open>k\<close>-th send can fail without being issued: when a disconnect has set \<open>client\<close> to null
  during the delay, line 135 throws before \<open>sendMessage\<close> is called, and a run over two
  recipients whose second send fails in this way has issued one send, not two.
\<close>

theorem C3_first_failure_counterexample:
  "responses (send_messages
      (Some (Workbook [[String ''MobileNumber''], [Number 111], [Number 222], [Number 333]]))
      (Some ''hello'')
      \<lparr>client = Some \<lparr>cid = 0, info = True\<rparr>, isClientInitializing = True,
         qrCodeContent = None, constructed = 1\<rparr>
      (\<lambda>i. Some \<lparr>cid = 0, info = True\<rparr>)
      (\<lambda>i. if i = 0 then Rejected ''timeout'' else Resolved))
     = [(500, Error ''Failed to send messages.'')]
   \<and> responses (send_messages
      (Some (Workbook [[String ''MobileNumber''], [Number 111], [Number 222], [Number 333]]))
      (Some ''hello'')
      \<lparr>client = Some \<lparr>cid = 0, info = True\<rparr>, isClientInitializing = True,
         qrCodeContent = None, constructed = 1\<rparr>
      (\<lambda>i. Some \<lparr>cid = 0, info = True\<rparr>)
      (\<lambda>i. if i = 2 then Rejected ''timeout'' else Resolved))
     = [(500, Error ''Failed to send messages.'')]
   \<and> sends (send_messages
      (Some (Workbook [[String ''MobileNumber''], [Number 111], [Number 222]]))
      (Some ''hello'')
      \<lparr>client = Some \<lparr>cid = 0, info = True\<rparr>, isClientInitializing = True,
         qrCodeContent = None, constructed = 1\<rparr>
      (\<lambda>i. None) (\<lambda>i. Resolved))
     = [(''111@c.us'', ''hello'')]
   \<and> responses (send_messages
      (Some (Workbook [[String ''MobileNumber''], [Number 111], [Number 222]]))
      (Some ''hello'')
      \<lparr>client = Some \<lparr>cid = 0, info = True\<rparr>, isClientInitializing = True,
         qrCodeContent = None, constructed = 1\<rparr>
      (\<lambda>i. None) (\<lambda>i. Resolved))
     = [(500, Error ''Failed to send messages.'')]"
  by (simp add: send_messages_def truthy_def catch_send_def extraction_defs)

text \<open>
  Claim C3, amended. In a run over the recipients \<open>numbers\<close> where the first \<open>k - 1\<close> sends
  resolve and the \<open>k\<close>-th fails (\<open>1 \<le> k \<le> length numbers\<close>), the run stops there. The \<open>k\<close>-th
  send fails in one of two ways: the call is made and its promise is rejected, and then
  exactly \<open>k\<close> sends are issued, to the first \<open>k\<close> recipients in order; or the variable
  \<open>client\<close> is null when the send is reached (after the first send only), and then line
  135 throws before the call and exactly \<open>k - 1\<close> sends are issued. In both cases no
  recipient after the \<open>k\<close>-th is sent to, the \<open>k - 1\<close> delays all come before the failure
  and none after, and the caller gets status 500 with the fixed body
  \<open>Failed to send messages.\<close>, which carries neither a count nor a recipient. On the
  console only: \<open>k - 1\<close> lines \<open>Message sent to ...\<close>, a last line \<open>Sending message to\<close>
  that names recipient \<open>k\<close> as number \<open>k\<close> of \<open>length numbers\<close>, and one error line with
  the exception.
\<close>

theorem C3_first_failure:
  assumes "snd (parseExcelFile buf) = Inr numbers"
    and "m \<noteq> []"
    and "client s = Some c" and "info c"
    and "1 \<le> k" and "k \<le> length numbers"
    and "\<forall>i<k - 1. (0 < i \<longrightarrow> later i \<noteq> None) \<and> settles i = Resolved"
    and "case (if k = 1 then client s else later (k - 1)) of
           None \<Rightarrow> e = null_client
         | Some c' \<Rightarrow> settles (k - 1) = Rejected e"
  shows "let r = send_messages (Some buf) (Some m) s later settles;
             issued = (case (if k = 1 then client s else later (k - 1)) of
                         None \<Rightarrow> k - 1
                       | Some c' \<Rightarrow> k) in
      sends r = map (\<lambda>number. (number @ ''@c.us'', m)) (take issued numbers)
    \<and> delays r = replicate (k - 1) 15000
    \<and> pacing r = concat (map (\<lambda>number. [Inl (number @ ''@c.us''), Inr 15000])
                    (take (k - 1) numbers))
                  @ map (\<lambda>number. Inl (number @ ''@c.us'')) (drop (k - 1) (take issued numbers))
    \<and> confirmations r = k - 1
    \<and> last (attempts r) = (numbers ! (k - 1), k, length numbers)
    \<and> failures r = [(''Error:'', e)]
    \<and> responses r = [(500, Error ''Failed to send messages.'')]"
proof -
  let ?clients = "\<lambda>i. if i = 0 then client s else later i"
  let ?loop = "sendLoop ?clients settles m (length numbers) 0 numbers"
  let ?cl = "if k = 1 then client s else later (k - 1)"
  have a: "k - 1 < length numbers"
    using assms(5,6) by simp
  have b: "\<forall>j<k - 1. ?clients (0 + j) \<noteq> None \<and> settles (0 + j) = Resolved"
    using assms(3,7) by simp
  have cl: "?clients (0 + (k - 1)) = ?cl"
    using assms(5) by auto
  obtain ls where p: "parseExcelFile buf = (ls, Inr numbers)"
    using assms(1) by (cases "parseExcelFile buf") simp
  have q: "sends ls = []" "delays ls = []" "pacing ls = []" "confirmations ls = 0" "responses ls = []"
    "attempts ls = []" "failures ls = []"
    using parseExcelFile_quiet [of buf] p by simp_all
  have n: "numbers \<noteq> []"
    using a by auto
  show ?thesis
  proof (cases ?cl)
    case None
    then have e: "e = null_client"
      using assms(8) by simp
    have d: "?clients (0 + (k - 1)) = None"
      using cl None by simp
    from sendLoop_null [where index = 0 and m = m and len = "length numbers", OF _ a b d]
    have loop: "snd ?loop = Some e
      \<and> sends (fst ?loop) = map (\<lambda>number. (number @ ''@c.us'', m)) (take (k - 1) numbers)
      \<and> delays (fst ?loop) = replicate (k - 1) 15000
      \<and> confirmations (fst ?loop) = k - 1
      \<and> responses (fst ?loop) = []
      \<and> failures (fst ?loop) = []
      \<and> last (attempts (fst ?loop)) = (numbers ! (k - 1), k, length numbers)
      \<and> attempts (fst ?loop) \<noteq> []
      \<and> pacing (fst ?loop)
          = concat (map (\<lambda>number. [Inl (number @ ''@c.us''), Inr 15000]) (take (k - 1) numbers))"
      using assms(5) e by simp
    obtain es where l: "?loop = (es, Some e)"
      using loop by (cases ?loop) simp
    have r: "send_messages (Some buf) (Some m) s later settles
        = ls @ Console (LogCount (length numbers)) # es @ catch_send e"
      using assms(2,3,4) n p l by (simp add: send_messages_def truthy_def)
    show ?thesis
      unfolding Let_def r using loop l q None
      by (simp add: projections_append catch_send_def)
  next
    case (Some c')
    then have f: "settles (0 + (k - 1)) = Rejected e"
      using assms(8) by simp
    have d: "?clients (0 + (k - 1)) \<noteq> None"
      using cl Some by simp
    have t: "drop (k - 1) (take k numbers) = [numbers ! (k - 1)]"
    proof -
      from assms(5) have "take k numbers = take (Suc (k - 1)) numbers"
        by simp
      also have "\<dots> = take (k - 1) numbers @ [numbers ! (k - 1)]"
        using a by (rule take_Suc_conv_app_nth)
      finally show ?thesis
        using a by simp
    qed
    from sendLoop_rejected [where index = 0 and m = m and len = "length numbers", OF _ a b d f]
    have loop: "snd ?loop = Some e
      \<and> sends (fst ?loop) = map (\<lambda>number. (number @ ''@c.us'', m)) (take k numbers)
      \<and> delays (fst ?loop) = replicate (k - 1) 15000
      \<and> confirmations (fst ?loop) = k - 1
      \<and> responses (fst ?loop) = []
      \<and> failures (fst ?loop) = []
      \<and> last (attempts (fst ?loop)) = (numbers ! (k - 1), k, length numbers)
      \<and> attempts (fst ?loop) \<noteq> []
      \<and> pacing (fst ?loop)
          = concat (map (\<lambda>number. [Inl (number @ ''@c.us''), Inr 15000]) (take (k - 1) numbers))
            @ [Inl (numbers ! (k - 1) @ ''@c.us'')]"
      using assms(5) by simp
    obtain es where l: "?loop = (es, Some e)"
      using loop by (cases ?loop) simp
    have r: "send_messages (Some buf) (Some m) s later settles
        = ls @ Console (LogCount (length numbers)) # es @ catch_send e"
      using assms(2,3,4) n p l by (simp add: send_messages_def truthy_def)
    show ?thesis
      unfolding Let_def r using loop l q Some t
      by (simp add: projections_append catch_send_def)
  qed
qed

theorem C3_first_failure_witness:
  "snd (parseExcelFile (Workbook
          [[String ''MobileNumber''], [Number 111], [String '' 222 ''], [Number 333]]))
     = Inr [''111'', ''222'', ''333'']
   \<and> (let r = send_messages
                (Some (Workbook
                   [[String ''MobileNumber''], [Number 111], [String '' 222 ''], [Number 333]]))
                (Some ''hello'')
                \<lparr>client = Some \<lparr>cid = 0, info = True\<rparr>, isClientInitializing = True,
                   qrCodeContent = None, constructed = 1\<rparr>
                (\<lambda>i. Some \<lparr>cid = 0, info = True\<rparr>)
                (\<lambda>i. if i = 1 then Rejected ''timeout'' else Resolved) in
        sends r = [(''111@c.us'', ''hello''), (''222@c.us'', ''hello'')]
        \<and> delays r = [15000]
        \<and> pacing r = [Inl ''111@c.us'', Inr 15000, Inl ''222@c.us'']
        \<and> confirmations r = 1
        \<and> last (attempts r) = (''222'', 2, 3)
        \<and> failures r = [(''Error:'', ''timeout'')]
        \<and> responses r = [(500, Error ''Failed to send messages.'')])
   \<and> snd (parseExcelFile (Workbook [[String ''MobileNumber''], [Number 111], [Number 222]]))
     = Inr [''111'', ''222'']
   \<and> (let r = send_messages
                (Some (Workbook [[String ''MobileNumber''], [Number 111], [Number 222]]))
                (Some ''hello'')
                \<lparr>client = Some \<lparr>cid = 0, info = True\<rparr>, isClientInitializing = True,
                   qrCodeContent = None, constructed = 1\<rparr>
                (\<lambda>i. None) (\<lambda>i. Resolved) in
        sends r = [(''111@c.us'', ''hello'')]
        \<and> delays r = [15000]
        \<and> pacing r = [Inl ''111@c.us'', Inr 15000]
        \<and> confirmations r = 1
        \<and> last (attempts r) = (''222'', 2, 2)
        \<and> failures r = [(''Error:'', null_client)]
        \<and> responses r = [(500, Error ''Failed to send messages.'')])"
proof -
  have p: "snd (parseExcelFile (Workbook
          [[String ''MobileNumber''], [Number 111], [String '' 222 ''], [Number 333]]))
     = Inr [''111'', ''222'', ''333'']"
    by (simp add: extraction_defs)
  have p': "snd (parseExcelFile (Workbook [[String ''MobileNumber''], [Number 111], [Number 222]]))
     = Inr [''111'', ''222'']"
    by (simp add: extraction_defs)
  have 1: "let r = send_messages
                (Some (Workbook
                   [[String ''MobileNumber''], [Number 111], [String '' 222 ''], [Number 333]]))
                (Some ''hello'')
                \<lparr>client = Some \<lparr>cid = 0, info = True\<rparr>, isClientInitializing = True,
                   qrCodeContent = None, constructed = 1\<rparr>
                (\<lambda>i. Some \<lparr>cid = 0, info = True\<rparr>)
                (\<lambda>i. if i = 1 then Rejected ''timeout'' else Resolved) in
        sends r = [(''111@c.us'', ''hello''), (''222@c.us'', ''hello'')]
        \<and> delays r = [15000]
        \<and> pacing r = [Inl ''111@c.us'', Inr 15000, Inl ''222@c.us'']
        \<and> confirmations r = 1
        \<and> last (attempts r) = (''222'', 2, 3)
        \<and> failures r = [(''Error:'', ''timeout'')]
        \<and> responses r = [(500, Error ''Failed to send messages.'')]"
    using C3_first_failure [where k = 2 and m = "''hello''" and e = "''timeout''"
        and c = "\<lparr>cid = 0, info = True\<rparr>"
        and s = "\<lparr>client = Some \<lparr>cid = 0, info = True\<rparr>, isClientInitializing = True,
                   qrCodeContent = None, constructed = 1\<rparr>"
        and later = "\<lambda>i. Some \<lparr>cid = 0, info = True\<rparr>"
        and settles = "\<lambda>i. if i = 1 then Rejected ''timeout'' else Resolved", OF p]
    by (simp add: Let_def)
  have 2: "let r = send_messages
                (Some (Workbook [[String ''MobileNumber''], [Number 111], [Number 222]]))
                (Some ''hello'')
                \<lparr>client = Some \<lparr>cid = 0, info = True\<rparr>, isClientInitializing = True,
                   qrCodeContent = None, constructed = 1\<rparr>
                (\<lambda>i. None) (\<lambda>i. Resolved) in
        sends r = [(''111@c.us'', ''hello'')]
        \<and> delays r = [15000]
        \<and> pacing r = [Inl ''111@c.us'', Inr 15000]
        \<and> confirmations r = 1
        \<and> last (attempts r) = (''222'', 2, 2)
        \<and> failures r = [(''Error:'', null_client)]
        \<and> responses r = [(500, Error ''Failed to send messages.'')]"
    using C3_first_failure [where k = 2 and m = "''hello''" and e = null_client
        and c = "\<lparr>cid = 0, info = True\<rparr>"
        and s = "\<lparr>client = Some \<lparr>cid = 0, info = True\<rparr>, isClientInitializing = True,
                   qrCodeContent = None, constructed = 1\<rparr>"
        and later = "\<lambda>i. None"
        and settles = "\<lambda>i. Resolved", OF p']
    by (simp add: Let_def)
  from p 1 p' 2 show ?thesis by blast
qed

text \<open>
  Claim C8. A request with a file and a non-empty message whose extraction yields no
  recipient is answered 400 \<open>No valid mobile numbers found.\<close> and issues no send, whatever
  the state of the session: the check of the list (line 116) comes before the check of the
  session (line 120), whose 500 is never the answer here.
\<close>

theorem C8_no_recipients:
  assumes "snd (parseExcelFile buf) = Inr []" and "truthy message"
  shows "send_messages (Some buf) message s later settles
           = fst (parseExcelFile buf) @ [Respond 400 (Error ''No valid mobile numbers found.'')]
    \<and> responses (send_messages (Some buf) message s later settles)
           = [(400, Error ''No valid mobile numbers found.'')]
    \<and> sends (send_messages (Some buf) message s later settles) = []"
proof -
  obtain ls where p: "parseExcelFile buf = (ls, Inr [])"
    using assms(1) by (cases "parseExcelFile buf") simp
  have q: "sends ls = []" "responses ls = []"
    using parseExcelFile_quiet [of buf] p by simp_all
  show ?thesis
    using assms(2) p q by (simp add: send_messages_def projections_append)
qed

theorem C8_no_recipients_witness:
  "snd (parseExcelFile (Workbook [[String ''MobileNumber''], [String ''abc''], []])) = Inr []
   \<and> truthy (Some ''hello'')
   \<and> client (state initial) = None
   \<and> responses (send_messages (Some (Workbook [[String ''MobileNumber''], [String ''abc''], []]))
        (Some ''hello'') (state initial) (\<lambda>i. None) (\<lambda>i. Resolved))
       = [(400, Error ''No valid mobile numbers found.'')]
   \<and> sends (send_messages (Some (Workbook [[String ''MobileNumber''], [String ''abc''], []]))
        (Some ''hello'') (state initial) (\<lambda>i. None) (\<lambda>i. Resolved)) = []"
proof -
  have p: "snd (parseExcelFile (Workbook [[String ''MobileNumber''], [String ''abc''], []])) = Inr []"
    by (simp add: extraction_defs)
  have t: "truthy (Some ''hello'')"
    by (simp add: truthy_def)
  have c: "client (state initial) = None"
    by (simp add: initial_def)
  from C8_no_recipients [OF p t, of "state initial" "\<lambda>i. None" "\<lambda>i. Resolved"] p t c
  show ?thesis by blast
qed

text \<open>
  Claim C10. Whatever the request and the run, the addresses that \<open>client.sendMessage\<close>
  receives are, in order, the first recipients of the extracted list, each with the suffix
  \<open>@c.us\<close> appended; no address is a bare recipient of that list.
\<close>

theorem C10_send_address:
  assumes "snd (parseExcelFile buf) = Inr numbers"
  shows "map fst (sends (send_messages (Some buf) message s later settles))
           = map (\<lambda>number. number @ ''@c.us'')
               (take (length (sends (send_messages (Some buf) message s later settles))) numbers)
    \<and> (\<forall>address \<in> set (map fst (sends (send_messages (Some buf) message s later settles))).
          address \<notin> set numbers)"
proof -
  obtain ls where p: "parseExcelFile buf = (ls, Inr numbers)"
    using assms(1) by (cases "parseExcelFile buf") simp
  have q: "sends ls = []"
    using parseExcelFile_quiet [of buf] p by simp
  let ?loop = "sendLoop (\<lambda>i. if i = 0 then client s else later i) settles
                 (case message of Some m \<Rightarrow> m | None \<Rightarrow> []) (length numbers) 0 numbers"
  have "sends (send_messages (Some buf) message s later settles) = []
      \<or> sends (send_messages (Some buf) message s later settles) = sends (fst ?loop)"
    using p q
    by (auto simp: send_messages_def projections_append catch_send_def
        split: option.splits prod.splits)
  then have 1: "map fst (sends (send_messages (Some buf) message s later settles))
           = map (\<lambda>number. number @ ''@c.us'')
               (take (length (sends (send_messages (Some buf) message s later settles))) numbers)"
    using sendLoop_addresses [of "\<lambda>i. if i = 0 then client s else later i" settles
        "case message of Some m \<Rightarrow> m | None \<Rightarrow> []" "length numbers" 0 numbers]
    by auto
  have 2: "address \<notin> set numbers"
    if "address \<in> set (map fst (sends (send_messages (Some buf) message s later settles)))"
    for address
  proof
    assume m: "address \<in> set numbers"
    from that 1 obtain number where "address = number @ ''@c.us''"
      by auto
    moreover from parseExcelFile_numeric [OF assms] m have "numeric address"
      by (simp add: list_all_iff)
    ultimately show False
      using address_not_numeric by simp
  qed
  show ?thesis using 1 2 by blast
qed

theorem C10_send_address_witness:
  "snd (parseExcelFile (Workbook [[String ''MobileNumber''], [Number 111], [String '' 222 '']]))
     = Inr [''111'', ''222'']
   \<and> map fst (sends (send_messages
        (Some (Workbook [[String ''MobileNumber''], [Number 111], [String '' 222 '']]))
        (Some ''hello'')
        \<lparr>client = Some \<lparr>cid = 0, info = True\<rparr>, isClientInitializing = True,
           qrCodeContent = None, constructed = 1\<rparr>
        (\<lambda>i. Some \<lparr>cid = 0, info = True\<rparr>) (\<lambda>i. Resolved)))
       = [''111@c.us'', ''222@c.us'']
   \<and> ''111@c.us'' \<notin> set [''111'', ''222'']
   \<and> ''222@c.us'' \<notin> set [''111'', ''222'']"
proof -
  have p: "snd (parseExcelFile (Workbook [[String ''MobileNumber''], [Number 111], [String '' 222 '']]))
     = Inr [''111'', ''222'']"
    by (simp add: extraction_defs)
  have n: "length (sends (send_messages
        (Some (Workbook [[String ''MobileNumber''], [Number 111], [String '' 222 '']]))
        (Some ''hello'')
        \<lparr>client = Some \<lparr>cid = 0, info = True\<rparr>, isClientInitializing = True,
           qrCodeContent = None, constructed = 1\<rparr>
        (\<lambda>i. Some \<lparr>cid = 0, info = True\<rparr>) (\<lambda>i. Resolved))) = 2"
    by (simp add: send_messages_def truthy_def extraction_defs)
  from C10_send_address [OF p, of "Some ''hello''"
      "\<lparr>client = Some \<lparr>cid = 0, info = True\<rparr>, isClientInitializing = True,
         qrCodeContent = None, constructed = 1\<rparr>"
      "\<lambda>i. Some \<lparr>cid = 0, info = True\<rparr>" "\<lambda>i. Resolved"] n p
  show ?thesis by simp
qed

end
